theory Spec2Isabelle
  imports Main "HOL-Library.Word"
begin

section \<open>The session core of quic-go (session.go)\<close>

text \<open>
  The theory embeds \<^verbatim>\<open>session.go\<close>: the stream table, the frame dispatcher, the send
  scheduler, the close machine and the body of the event loop. The session talks to
  packages whose code is elsewhere (ackhandler, congestion, frames, handshake, protocol,
  the packer and unpacker, the connection, the streams). Each of their methods is a
  parameter of the model: a field of the record \<open>env\<close>, which gives the method's result
  from the history of calls made so far, so that a collaborator may be any state machine.
  Every call that has an effect outside the session is appended to the field \<open>calls\<close>
  of the session, with the result it returned; the stream callback is recorded with
  the stream it is given, as the stream is at that moment.
\<close>

subsection \<open>Protocol types\<close>

type_synonym StreamID = "32 word"
type_synonym PacketNumber = "64 word"
type_synonym PacketNumberLen = "8 word"
type_synonym ByteCount = "64 word"
type_synonym ConnectionID = "64 word"
type_synonym ErrorCode = "32 word"
type_synonym Duration = int
type_synonym bytes = "8 word list"

text \<open>
  The error values of the file, the two of ackhandler that the loop compares with, a
  \<^verbatim>\<open>*protocol.QuicError\<close> with its code and message, and an error made by
  \<^verbatim>\<open>fmt.Errorf\<close>, kept as its format string and arguments.
\<close>

datatype error =
    errInvalidStreamID
  | errReopeningStreamsNotAllowed
  | errRstStreamOnInvalidStream
  | errWindowUpdateOnInvalidStream
  | ErrDuplicateOrOutOfOrderAck
  | ErrMapAccess
  | QuicError ErrorCode string
  | fmt_Errorf string "nat list"
  | OtherError string

text \<open>What stops a call without a return: a Go run-time panic, or a send that blocks.\<close>

datatype fault =
    NilPointerDereference
  | NilInterfaceConversion
  | Panic string
  | BlockedOnSend

datatype 'a outcome = Returns 'a | Faults fault

subsection \<open>Frames and packets\<close>

text \<open>The frame types carry the fields that the session reads or writes.\<close>

record StreamFrame =
  sf_StreamID :: StreamID
  sf_FinBit :: bool
  sf_Offset :: ByteCount
  sf_Data :: bytes

record AckFrame =
  ack_LargestObserved :: PacketNumber
  ack_DelayTime :: Duration

record ConnectionCloseFrame =
  cc_ErrorCode :: ErrorCode
  cc_ReasonPhrase :: string

record StopWaitingFrame =
  sw_LeastUnacked :: PacketNumber

record RstStreamFrame =
  rst_StreamID :: StreamID
  rst_ErrorCode :: ErrorCode

record WindowUpdateFrame =
  wu_StreamID :: StreamID
  wu_ByteOffset :: ByteCount

record BlockedFrame =
  bl_StreamID :: StreamID

datatype Frame =
    FStream StreamFrame
  | FAck AckFrame
  | FConnectionClose ConnectionCloseFrame
  | FStopWaiting StopWaitingFrame
  | FRstStream RstStreamFrame
  | FWindowUpdate WindowUpdateFrame
  | FBlocked BlockedFrame
  | FPing
  | FOther

record PublicHeader =
  Raw :: bytes
  ConnectionID :: ConnectionID
  PacketNumberLen :: PacketNumberLen
  PacketNumber :: PacketNumber

record receivedPacket =
  remoteAddr :: nat
  publicHeader :: PublicHeader
  r :: bytes

text \<open>The result of the unpacker.\<close>

record unpackedPacket =
  up_entropyBit :: bool
  up_frames :: "Frame list"

text \<open>The result of the packer.\<close>

record packedPacket =
  pp_number :: PacketNumber
  pp_raw :: bytes
  pp_frames :: "Frame list"
  pp_entropyBit :: bool

text \<open>\<^verbatim>\<open>ackhandler.Packet\<close>, and an entry of a \<^verbatim>\<open>congestion.PacketVector\<close>.\<close>

record Packet =
  PacketNumber' :: PacketNumber
  Frames :: "Frame list"
  EntropyBit :: bool
  Length :: ByteCount

record PacketInfo =
  Number :: PacketNumber
  Length' :: ByteCount

record publicResetPacket =
  pr_connectionID :: ConnectionID
  pr_rejectedPacketNumber :: PacketNumber
  pr_nonceProof :: "64 word"

subsection \<open>Calls to the collaborators\<close>

datatype log_level = Debugf | Infof | Errorf

datatype 'st event =
    E_Log log_level
  | E_setCurrentRemoteAddr nat
  | E_Unpack bytes PublicHeader bytes "error + unpackedPacket"
  | E_ReceivedPacket PacketNumber bool
  | E_ReceivedStopWaiting StopWaitingFrame "error option"
  | E_ReceivedAck AckFrame "error + Duration \<times> Packet list \<times> Packet list"
  | E_UpdateRTT Duration Duration
  | E_OnCongestionEvent bool ByteCount "PacketInfo list" "PacketInfo list"
  | E_streamCallback StreamID 'st
  | E_closeCallback ConnectionID
  | E_DequeuePacketForRetransmission "Packet option"
  | E_RegisterPacketForRetransmission Packet
  | E_AddHighPrioStreamFrame StreamFrame
  | E_AddStreamFrame StreamFrame
  | E_GetStopWaitingFrame "StopWaitingFrame option"
  | E_DequeueAckFrame "error + AckFrame option"
  | E_PackPacket "StopWaitingFrame option" "Frame list" bool "error + packedPacket option"
  | E_SentPacket Packet "error option"
  | E_OnPacketSent ByteCount PacketNumber ByteCount bool
  | E_SentStopWaitingWithPacket PacketNumber
  | E_write bytes "error option"

type_synonym 'st history = "'st event list"

text \<open>
  The collaborators. \<open>'st\<close> is the state of a stream (\<^verbatim>\<open>stream.go\<close>). The current
  time, which \<^verbatim>\<open>UpdateRTT\<close> and \<^verbatim>\<open>OnPacketSent\<close> are given, is not modelled. The
  methods that only read (\<^verbatim>\<open>BytesInFlight\<close>, \<^verbatim>\<open>GetCongestionWindow\<close>, \<^verbatim>\<open>Empty\<close> of the
  packer, \<^verbatim>\<open>Error\<close>, the two accessors of a packet to retransmit) and the methods of a
  stream, whose state is in the stream table, are not recorded as calls.
\<close>

record 'st env =
  \<comment> \<open>constants of package errorcodes\<close>
  QUIC_DECRYPTION_FAILURE :: ErrorCode
  QUIC_PEER_GOING_AWAY :: ErrorCode
  QUIC_NETWORK_IDLE_TIMEOUT :: ErrorCode
  \<comment> \<open>package protocol\<close>
  InferPacketNumber :: "PacketNumberLen \<Rightarrow> PacketNumber \<Rightarrow> PacketNumber \<Rightarrow> PacketNumber"
  Error :: "error \<Rightarrow> string"
  \<comment> \<open>the streams\<close>
  newStream :: "'st history \<Rightarrow> StreamID \<Rightarrow> error + 'st"
  AddStreamFrame :: "'st \<Rightarrow> StreamFrame \<Rightarrow> 'st \<times> error option"
  UpdateFlowControlWindow :: "'st \<Rightarrow> ByteCount \<Rightarrow> 'st"
  RegisterError :: "'st \<Rightarrow> error \<Rightarrow> 'st"
  finishedReading :: "'st \<Rightarrow> bool"
  \<comment> \<open>unpacker and packer\<close>
  Unpack :: "'st history \<Rightarrow> bytes \<Rightarrow> PublicHeader \<Rightarrow> bytes \<Rightarrow> error + unpackedPacket"
  PackPacket :: "'st history \<Rightarrow> StopWaitingFrame option \<Rightarrow> Frame list \<Rightarrow> bool \<Rightarrow> error + packedPacket option"
  packer_Empty :: "'st history \<Rightarrow> bool"
  Write :: "publicResetPacket \<Rightarrow> bytes"
  \<comment> \<open>ackhandler\<close>
  ReceivedStopWaiting :: "'st history \<Rightarrow> StopWaitingFrame \<Rightarrow> error option"
  ReceivedAck :: "'st history \<Rightarrow> AckFrame \<Rightarrow> error + Duration \<times> Packet list \<times> Packet list"
  BytesInFlight :: "'st history \<Rightarrow> ByteCount"
  DequeuePacketForRetransmission :: "'st history \<Rightarrow> Packet option"
  GetControlFramesForRetransmission :: "Packet \<Rightarrow> Frame list"
  GetStreamFramesForRetransmission :: "Packet \<Rightarrow> StreamFrame list"
  GetStopWaitingFrame :: "'st history \<Rightarrow> StopWaitingFrame option"
  DequeueAckFrame :: "'st history \<Rightarrow> error + AckFrame option"
  SentPacket :: "'st history \<Rightarrow> Packet \<Rightarrow> error option"
  \<comment> \<open>congestion\<close>
  GetCongestionWindow :: "'st history \<Rightarrow> ByteCount"
  \<comment> \<open>the connection\<close>
  conn_write :: "'st history \<Rightarrow> bytes \<Rightarrow> error option"

subsection \<open>The session\<close>

text \<open>
  An entry of the stream table is a pointer to a stream: \<open>Some (Some st)\<close> is a live
  stream, \<open>Some None\<close> is the nil pointer that marks a retired id, and \<open>None\<close> is a
  key that is not in the map. The channels \<^verbatim>\<open>sendingScheduled\<close> and \<^verbatim>\<open>closeChan\<close>
  have room for one signal: the first is read here as "a signal is waiting", the second
  as the number of signals waiting.
\<close>

record 'st Session =
  connectionID :: ConnectionID
  streams :: "StreamID \<rightharpoonup> 'st option"
  sendingScheduled :: bool
  closeChan :: nat
  closed :: bool
  lastRcvdPacketNumber :: PacketNumber
  calls :: "'st history"

definition call :: "'st event \<Rightarrow> 'st Session \<Rightarrow> 'st Session" where
  "call e s = s\<lparr>calls := calls s @ [e]\<rparr>"

text \<open>Go's \<^verbatim>\<open>m[k]\<close> of a map of pointers: nil when the key is not there.\<close>

definition index :: "(StreamID \<rightharpoonup> 'st option) \<Rightarrow> StreamID \<Rightarrow> 'st option" where
  "index m k = (case m k of None \<Rightarrow> None | Some p \<Rightarrow> p)"

subsection \<open>The stream table\<close>

definition isValidStreamID :: "StreamID \<Rightarrow> bool" where
  "isValidStreamID streamID = (if streamID mod 2 \<noteq> 1 then False else True)"

text \<open>
  \<^verbatim>\<open>NewStream\<close> makes the stream first and then looks at the table: it refuses when
  \<^verbatim>\<open>s.streams[id] != nil\<close>.
\<close>

definition NewStream :: "'st env \<Rightarrow> 'st Session \<Rightarrow> StreamID \<Rightarrow> (error + 'st) \<times> 'st Session" where
  "NewStream env s sid =
     (case newStream env (calls s) sid of
        Inl err \<Rightarrow> (Inl err, s)
      | Inr stream \<Rightarrow>
          if index (streams s) sid \<noteq> None
          then (Inl (fmt_Errorf ''Session: stream with ID %d already exists'' [unat sid]), s)
          else (Inr stream, s\<lparr>streams := (streams s)(sid \<mapsto> Some stream)\<rparr>))"

text \<open>
  The loop of \<^verbatim>\<open>garbageCollectStreams\<close> visits every key of the map once, and a visit
  reads and writes the entry of its own key only, so the loop is the update of every
  entry by the body.
\<close>

definition garbageCollectStreams :: "'st env \<Rightarrow> 'st Session \<Rightarrow> 'st Session" where
  "garbageCollectStreams env s =
     s\<lparr>streams := (\<lambda>k. case streams s k of
          None \<Rightarrow> None
        | Some None \<Rightarrow> Some None
        | Some (Some v) \<Rightarrow> if finishedReading env v then Some None else Some (Some v))\<rparr>"

text \<open>\<^verbatim>\<open>closeStreamsWithError\<close> has the same shape.\<close>

definition closeStreamsWithError :: "'st env \<Rightarrow> 'st Session \<Rightarrow> error \<Rightarrow> 'st Session" where
  "closeStreamsWithError env s err =
     s\<lparr>streams := (\<lambda>k. case streams s k of
          None \<Rightarrow> None
        | Some None \<Rightarrow> Some None
        | Some (Some v) \<Rightarrow> Some (Some (RegisterError env v err)))\<rparr>"

definition scheduleSending :: "'st Session \<Rightarrow> 'st Session" where
  "scheduleSending s = s\<lparr>sendingScheduled := True\<rparr>"

subsection \<open>Frame handlers\<close>

text \<open>
  A method of a stream changes the stream behind its pointer, and the table shows the
  change where it holds that pointer. In \<^verbatim>\<open>handleStreamFrame\<close> the pointer is the one
  that the table holds for the frame's stream id: the handler has read it there, or
  \<^verbatim>\<open>NewStream\<close> has put it there. A table without that entry is left as it is.
\<close>

definition throughPointer :: "StreamID \<Rightarrow> 'st \<Rightarrow> 'st Session \<Rightarrow> 'st Session" where
  "throughPointer sid st' s =
     (case streams s sid of
        Some (Some st) \<Rightarrow> s\<lparr>streams := (streams s)(sid \<mapsto> Some st')\<rparr>
      | _ \<Rightarrow> s)"

text \<open>The second half of \<^verbatim>\<open>handleStreamFrame\<close>, from \<^verbatim>\<open>if str == nil\<close>.\<close>

definition addToStream :: "'st env \<Rightarrow> 'st Session \<Rightarrow> StreamFrame \<Rightarrow> 'st option \<Rightarrow> bool
    \<Rightarrow> error option outcome \<times> 'st Session" where
  "addToStream env s frame str streamExists =
     (case str of
        None \<Rightarrow> (Returns (Some errReopeningStreamsNotAllowed), s)
      | Some st \<Rightarrow>
          (case AddStreamFrame env st frame of
             (st', err) \<Rightarrow>
               let s1 = throughPointer (sf_StreamID frame) st' s in
               (case err of
                  Some e \<Rightarrow> (Returns (Some e), s1)
                | None \<Rightarrow>
                    if \<not> streamExists
                    then (Returns None, call (E_streamCallback (sf_StreamID frame) st') s1)
                    else (Returns None, s1))))"

text \<open>
  When \<^verbatim>\<open>NewStream\<close> returns an error, its first result is the nil interface, and
  the type assertion \<^verbatim>\<open>ss.(*stream)\<close> panics.
\<close>

definition handleStreamFrame :: "'st env \<Rightarrow> 'st Session \<Rightarrow> StreamFrame
    \<Rightarrow> error option outcome \<times> 'st Session" where
  "handleStreamFrame env s frame =
     (case streams s (sf_StreamID frame) of
        None \<Rightarrow>
          if \<not> isValidStreamID (sf_StreamID frame)
          then (Returns (Some errInvalidStreamID), s)
          else (case NewStream env s (sf_StreamID frame) of
                  (Inl _, s1) \<Rightarrow> (Faults NilInterfaceConversion, s1)
                | (Inr ss, s1) \<Rightarrow> addToStream env s1 frame (Some ss) False)
      | Some str \<Rightarrow> addToStream env s frame str True)"

text \<open>
  Modelled from the spec: \<^verbatim>\<open>stream.UpdateFlowControlWindow\<close> is in \<^verbatim>\<open>stream.go\<close>, which
  is not among the sources. It raises the send-side window of its receiver to the new
  byte offset, so it reads and writes a field of the receiver: called on a nil
  \<^verbatim>\<open>*stream\<close>, it is Go's nil pointer dereference. What it does to a stream is the
  parameter \<open>UpdateFlowControlWindow\<close>.
\<close>

definition stream_UpdateFlowControlWindow :: "'st env \<Rightarrow> 'st option \<Rightarrow> ByteCount \<Rightarrow> fault + 'st" where
  "stream_UpdateFlowControlWindow env stream n =
     (case stream of
        None \<Rightarrow> Inl NilPointerDereference
      | Some st \<Rightarrow> Inr (UpdateFlowControlWindow env st n))"

text \<open>
  \<^verbatim>\<open>handleWindowUpdateFrame\<close> calls \<^verbatim>\<open>UpdateFlowControlWindow\<close> on the entry that it finds
  in the table, without a test for nil.
\<close>

definition handleWindowUpdateFrame :: "'st env \<Rightarrow> 'st Session \<Rightarrow> WindowUpdateFrame
    \<Rightarrow> error option outcome \<times> 'st Session" where
  "handleWindowUpdateFrame env s frame =
     (if wu_StreamID frame = 0 then (Returns None, s)
      else (case streams s (wu_StreamID frame) of
              None \<Rightarrow> (Returns (Some errWindowUpdateOnInvalidStream), s)
            | Some stream \<Rightarrow>
                (case stream_UpdateFlowControlWindow env stream (wu_ByteOffset frame) of
                   Inl f \<Rightarrow> (Faults f, s)
                 | Inr st' \<Rightarrow>
                     (Returns None, s\<lparr>streams := (streams s)(wu_StreamID frame \<mapsto> Some st')\<rparr>))))"

definition handleRstStreamFrame :: "'st env \<Rightarrow> 'st Session \<Rightarrow> RstStreamFrame
    \<Rightarrow> error option outcome \<times> 'st Session" where
  "handleRstStreamFrame env s frame =
     (case streams s (rst_StreamID frame) of
        None \<Rightarrow> (Returns (Some errRstStreamOnInvalidStream), s)
      | Some None \<Rightarrow> (Returns (Some errRstStreamOnInvalidStream), s)
      | Some (Some str) \<Rightarrow>
          (Returns None,
           s\<lparr>streams := (streams s)(rst_StreamID frame \<mapsto>
                Some (RegisterError env str
                        (fmt_Errorf ''RST_STREAM received with code %d'' [unat (rst_ErrorCode frame)])))\<rparr>))"

definition PacketVector :: "Packet list \<Rightarrow> PacketInfo list" where
  "PacketVector ps = map (\<lambda>v. \<lparr>Number = PacketNumber' v, Length' = Length v\<rparr>) ps"

definition handleAckFrame :: "'st env \<Rightarrow> 'st Session \<Rightarrow> AckFrame
    \<Rightarrow> error option outcome \<times> 'st Session" where
  "handleAckFrame env s frame =
     (let res = ReceivedAck env (calls s) frame;
          s1 = call (E_ReceivedAck frame res) s
      in case res of
           Inl err \<Rightarrow> (Returns (Some err), s1)
         | Inr (duration, acked, lost) \<Rightarrow>
             let s2 = call (E_UpdateRTT duration (ack_DelayTime frame)) s1;
                 cAcked = PacketVector acked;
                 cLost = PacketVector lost;
                 s3 = call (E_OnCongestionEvent True (BytesInFlight env (calls s2)) cAcked cLost) s2;
                 s4 = call (E_Log Debugf) s3;
                 s5 = call (E_Log Debugf) s4
             in (Returns None, s5))"

subsection \<open>The close machine\<close>

definition sendPublicReset :: "'st env \<Rightarrow> 'st Session \<Rightarrow> PacketNumber
    \<Rightarrow> error option outcome \<times> 'st Session" where
  "sendPublicReset env s rejectedPacketNumber =
     (let s1 = call (E_Log Infof) s;
          packet = \<lparr>pr_connectionID = connectionID s1,
                    pr_rejectedPacketNumber = rejectedPacketNumber,
                    pr_nonceProof = 0\<rparr>;
          b = Write env packet;
          w = conn_write env (calls s1) b
      in (Returns w, call (E_write b w) s1))"

text \<open>
  \<^verbatim>\<open>Close\<close>. The send on \<^verbatim>\<open>closeChan\<close> blocks when the channel already holds its one
  signal. The error code is that of a \<^verbatim>\<open>*protocol.QuicError\<close>, and 1 for any other
  error.
\<close>

definition errorCodeOf :: "error \<Rightarrow> ErrorCode" where
  "errorCodeOf e = (case e of QuicError c _ \<Rightarrow> c | _ \<Rightarrow> 1)"

definition sendConnectionClose :: "'st env \<Rightarrow> 'st Session \<Rightarrow> ErrorCode \<Rightarrow> string
    \<Rightarrow> error option outcome \<times> 'st Session" where
  "sendConnectionClose env s errorCode reasonPhrase =
     (let fs = [FConnectionClose \<lparr>cc_ErrorCode = errorCode, cc_ReasonPhrase = reasonPhrase\<rparr>];
          res = PackPacket env (calls s) None fs False;
          s1 = call (E_PackPacket None fs False res) s
      in case res of
           Inl err \<Rightarrow> (Returns (Some err), s1)
         | Inr None \<Rightarrow>
             (Faults (Panic ''Session: internal inconsistency: expected packet not to be nil''), s1)
         | Inr (Some packet) \<Rightarrow>
             let w = conn_write env (calls s1) (pp_raw packet)
             in (Returns w, call (E_write (pp_raw packet) w) s1))"

definition Close :: "'st env \<Rightarrow> 'st Session \<Rightarrow> error option \<Rightarrow> bool
    \<Rightarrow> error option outcome \<times> 'st Session" where
  "Close env s e sendClose =
     (if closed s then (Returns None, s)
      else
        let s1 = s\<lparr>closed := True\<rparr> in
        if 1 \<le> closeChan s1 then (Faults BlockedOnSend, s1)
        else
          let s2 = s1\<lparr>closeChan := closeChan s1 + 1\<rparr>;
              s3 = call (E_closeCallback (connectionID s2)) s2
          in
          if \<not> sendClose then (Returns None, s3)
          else
            let e' = (case e of
                        None \<Rightarrow> QuicError (QUIC_PEER_GOING_AWAY env) ''peer going away''
                      | Some x \<Rightarrow> x);
                s4 = call (E_Log Errorf) s3;
                errorCode = errorCodeOf e';
                reasonPhrase = Error env e';
                s5 = closeStreamsWithError env s4 e'
            in
            if errorCode = QUIC_DECRYPTION_FAILURE env
            then sendPublicReset env s5 (lastRcvdPacketNumber s5)
            else sendConnectionClose env s5 errorCode reasonPhrase)"

subsection \<open>The frame dispatcher\<close>

text \<open>
  The switch over the type of a frame. The result of \<^verbatim>\<open>Close\<close> for a
  CONNECTION_CLOSE frame is dropped, and the loop over the frames goes on.
\<close>

definition handleFrame :: "'st env \<Rightarrow> 'st Session \<Rightarrow> Frame
    \<Rightarrow> error option outcome \<times> 'st Session" where
  "handleFrame env s ff =
     (case ff of
        FStream frame \<Rightarrow> handleStreamFrame env (call (E_Log Debugf) s) frame
      | FAck frame \<Rightarrow> handleAckFrame env s frame
      | FConnectionClose frame \<Rightarrow>
          (case Close env (call (E_Log Debugf) s) None False of
             (Returns _, s1) \<Rightarrow> (Returns None, s1)
           | (Faults f, s1) \<Rightarrow> (Faults f, s1))
      | FStopWaiting frame \<Rightarrow>
          let s1 = call (E_Log Debugf) s;
              err = ReceivedStopWaiting env (calls s1) frame
          in (Returns err, call (E_ReceivedStopWaiting frame err) s1)
      | FRstStream frame \<Rightarrow>
          (case handleRstStreamFrame env s frame of
             (res, s1) \<Rightarrow> (res, call (E_Log Debugf) s1))
      | FWindowUpdate frame \<Rightarrow> handleWindowUpdateFrame env (call (E_Log Debugf) s) frame
      | FBlocked frame \<Rightarrow> (Returns None, call (E_Log Infof) s)
      | FPing \<Rightarrow> (Returns None, call (E_Log Debugf) s)
      | FOther \<Rightarrow> (Faults (Panic ''unexpected frame type''), s))"

fun handleFrames :: "'st env \<Rightarrow> 'st Session \<Rightarrow> Frame list
    \<Rightarrow> error option outcome \<times> 'st Session" where
  "handleFrames env s [] = (Returns None, s)"
| "handleFrames env s (ff # rest) =
     (case handleFrame env s ff of
        (Returns None, s1) \<Rightarrow> handleFrames env s1 rest
      | (Returns (Some err), s1) \<Rightarrow> (Returns (Some err), s1)
      | (Faults f, s1) \<Rightarrow> (Faults f, s1))"

definition isDecryptionFailure :: "'st env \<Rightarrow> error \<Rightarrow> bool" where
  "isDecryptionFailure env err =
     (case err of QuicError c _ \<Rightarrow> c = QUIC_DECRYPTION_FAILURE env | _ \<Rightarrow> False)"

definition handlePacket :: "'st env \<Rightarrow> 'st Session \<Rightarrow> nat \<Rightarrow> PublicHeader \<Rightarrow> bytes
    \<Rightarrow> error option outcome \<times> 'st Session" where
  "handlePacket env s addr hdr0 payload =
     (let hdr = hdr0\<lparr>PacketNumber :=
                  InferPacketNumber env (PacketNumberLen hdr0) (lastRcvdPacketNumber s)
                    (PacketNumber hdr0)\<rparr>;
          s1 = s\<lparr>lastRcvdPacketNumber := PacketNumber hdr\<rparr>;
          s2 = call (E_Log Debugf) s1;
          s3 = call (E_setCurrentRemoteAddr addr) s2;
          res = Unpack env (calls s3) (Raw hdr) hdr payload;
          s4 = call (E_Unpack (Raw hdr) hdr payload res) s3
      in case res of
           Inl err \<Rightarrow>
             if isDecryptionFailure env err
             then (Returns None, call (E_Log Infof) s4)
             else (Returns (Some err), s4)
         | Inr packet \<Rightarrow>
             handleFrames env
               (call (E_ReceivedPacket (PacketNumber hdr) (up_entropyBit packet)) s4)
               (up_frames packet))"

subsection \<open>The send scheduler\<close>

definition congestionAllowsSending :: "'st env \<Rightarrow> 'st Session \<Rightarrow> bool" where
  "congestionAllowsSending env s \<longleftrightarrow>
     BytesInFlight env (calls s) \<le> GetCongestionWindow env (calls s)"

text \<open>The retransmission block of \<^verbatim>\<open>sendPacket\<close>: the control frames, and the session.\<close>

definition dequeueRetransmission :: "'st env \<Rightarrow> 'st Session \<Rightarrow> Frame list \<times> 'st Session" where
  "dequeueRetransmission env s =
     (let retransmitPacket = DequeuePacketForRetransmission env (calls s);
          s1 = call (E_DequeuePacketForRetransmission retransmitPacket) s
      in case retransmitPacket of
           None \<Rightarrow> ([], s1)
         | Some p \<Rightarrow>
             let s2 = call (E_Log Debugf) s1;
                 s3 = call (E_RegisterPacketForRetransmission p) s2;
                 controlFrames = [] @ GetControlFramesForRetransmission env p
             in (controlFrames,
                 fold (\<lambda>streamFrame. call (E_AddHighPrioStreamFrame streamFrame))
                   (GetStreamFramesForRetransmission env p) s3))"

text \<open>The end of \<^verbatim>\<open>sendPacket\<close>, from the call of \<^verbatim>\<open>SentPacket\<close>.\<close>

definition registerAndWrite :: "'st env \<Rightarrow> 'st Session \<Rightarrow> packedPacket
    \<Rightarrow> error option outcome \<times> 'st Session" where
  "registerAndWrite env s packet =
     (let p = \<lparr>PacketNumber' = pp_number packet, Frames = pp_frames packet,
               EntropyBit = pp_entropyBit packet,
               Length = of_nat (length (pp_raw packet))\<rparr>;
          err = SentPacket env (calls s) p;
          s1 = call (E_SentPacket p err) s
      in case err of
           Some e \<Rightarrow> (Returns (Some e), s1)
         | None \<Rightarrow>
             let s2 = call (E_OnPacketSent (BytesInFlight env (calls s1)) (pp_number packet)
                              (of_nat (length (pp_raw packet))) True) s1;
                 s3 = call (E_SentStopWaitingWithPacket (pp_number packet)) s2;
                 s4 = fold (\<lambda>frame. call (E_Log Debugf)) (pp_frames packet)
                        (call (E_Log Debugf) s3);
                 w = conn_write env (calls s4) (pp_raw packet);
                 s5 = call (E_write (pp_raw packet) w) s4
             in (case w of
                   Some e \<Rightarrow> (Returns (Some e), s5)
                 | None \<Rightarrow>
                     if \<not> packer_Empty env (calls s5)
                     then (Returns None, scheduleSending s5)
                     else (Returns None, s5)))"

definition sendPacket :: "'st env \<Rightarrow> 'st Session \<Rightarrow> error option outcome \<times> 'st Session" where
  "sendPacket env s =
     (if \<not> congestionAllowsSending env s then (Returns None, s)
      else
        (case dequeueRetransmission env s of
           (controlFrames, s1) \<Rightarrow>
             let stopWaitingFrame = GetStopWaitingFrame env (calls s1);
                 s2 = call (E_GetStopWaitingFrame stopWaitingFrame) s1;
                 res = DequeueAckFrame env (calls s2);
                 s3 = call (E_DequeueAckFrame res) s2
             in (case res of
                   Inl err \<Rightarrow> (Returns (Some err), s3)
                 | Inr ack \<Rightarrow>
                     let controlFrames' = (case ack of
                                             None \<Rightarrow> controlFrames
                                           | Some a \<Rightarrow> controlFrames @ [FAck a]);
                         packed = PackPacket env (calls s3) stopWaitingFrame controlFrames' True;
                         s4 = call (E_PackPacket stopWaitingFrame controlFrames' True packed) s3
                     in (case packed of
                           Inl err \<Rightarrow> (Returns (Some err), s4)
                         | Inr None \<Rightarrow> (Returns None, s4)
                         | Inr (Some packet) \<Rightarrow> registerAndWrite env s4 packet))))"

definition QueueStreamFrame :: "'st env \<Rightarrow> 'st Session \<Rightarrow> StreamFrame
    \<Rightarrow> error option \<times> 'st Session" where
  "QueueStreamFrame env s frame = (None, scheduleSending (call (E_AddStreamFrame frame) s))"

subsection \<open>The event loop\<close>

text \<open>
  What \<^verbatim>\<open>Run\<close> does with the error of an iteration: the switch of lines 143 to 155.
  The result of \<^verbatim>\<open>Close\<close> is dropped.
\<close>

definition closeFromLoop :: "'st env \<Rightarrow> 'st Session \<Rightarrow> error \<Rightarrow> unit outcome \<times> 'st Session" where
  "closeFromLoop env s err =
     (case Close env s (Some err) True of
        (Returns _, s1) \<Rightarrow> (Returns (), s1)
      | (Faults f, s1) \<Rightarrow> (Faults f, s1))"

definition handleLoopError :: "'st env \<Rightarrow> 'st Session \<Rightarrow> error option
    \<Rightarrow> unit outcome \<times> 'st Session" where
  "handleLoopError env s err =
     (case err of
        None \<Rightarrow> (Returns (), s)
      | Some e \<Rightarrow>
          if e = ErrDuplicateOrOutOfOrderAck then (Returns (), s)
          else if e = ErrMapAccess then closeFromLoop env s e
          else if e = errRstStreamOnInvalidStream then (Returns (), call (E_Log Errorf) s)
          else closeFromLoop env s e)"

text \<open>
  One iteration of the loop of \<^verbatim>\<open>Run\<close>. \<^verbatim>\<open>HandlePacket\<close> only puts a packet on the
  channel \<^verbatim>\<open>receivedPackets\<close>; the packet that the loop takes from it comes with the
  case. Which ready case the second select takes is the argument \<open>sel\<close>; its close
  case needs a \<^verbatim>\<open>Close\<close> in another goroutine between the two selects and is the same
  as the first select one iteration later. The result says whether the loop goes on.
\<close>

datatype selected =
    case_receivedPackets receivedPacket
  | case_sendingScheduled
  | case_timeout

definition selectedCase :: "'st env \<Rightarrow> 'st Session \<Rightarrow> selected
    \<Rightarrow> error option outcome \<times> 'st Session" where
  "selectedCase env s sel =
     (case sel of
        case_receivedPackets p \<Rightarrow>
          (case handlePacket env s (remoteAddr p) (publicHeader p) (r p) of
             (Returns err, s1) \<Rightarrow> (Returns err, scheduleSending s1)
           | (Faults f, s1) \<Rightarrow> (Faults f, s1))
      | case_sendingScheduled \<Rightarrow> sendPacket env (s\<lparr>sendingScheduled := False\<rparr>)
      | case_timeout \<Rightarrow>
          (case Close env s
                  (Some (QuicError (QUIC_NETWORK_IDLE_TIMEOUT env) ''No recent network activity.''))
                  True of
             (Returns _, s1) \<Rightarrow> (Returns None, s1)
           | (Faults f, s1) \<Rightarrow> (Faults f, s1)))"

definition iteration :: "'st env \<Rightarrow> 'st Session \<Rightarrow> selected \<Rightarrow> bool outcome \<times> 'st Session" where
  "iteration env s sel =
     (if 0 < closeChan s then (Returns False, s\<lparr>closeChan := closeChan s - 1\<rparr>)
      else
        case selectedCase env s sel of
          (Faults f, s1) \<Rightarrow> (Faults f, s1)
        | (Returns err, s1) \<Rightarrow>
            (case handleLoopError env s1 err of
               (Faults f, s2) \<Rightarrow> (Faults f, s2)
             | (Returns _, s2) \<Rightarrow> (Returns True, garbageCollectStreams env s2)))"

text \<open>\<^verbatim>\<open>Run\<close>, for the cases that the selects of its iterations take, in order.\<close>

fun Run :: "'st env \<Rightarrow> 'st Session \<Rightarrow> selected list \<Rightarrow> bool outcome \<times> 'st Session" where
  "Run env s [] = (Returns True, s)"
| "Run env s (sel # sels) =
     (case iteration env s sel of
        (Returns True, s1) \<Rightarrow> Run env s1 sels
      | (Returns False, s1) \<Rightarrow> (Returns False, s1)
      | (Faults f, s1) \<Rightarrow> (Faults f, s1))"

subsection \<open>Sessions and their histories\<close>

text \<open>
  The session that \<^verbatim>\<open>NewSession\<close> makes: an empty stream table, to which
  \<^verbatim>\<open>NewStream(1)\<close> adds the crypto stream. The crypto setup, the packer, the unpacker
  and the congestion controller that it also makes are collaborators, and the handshake
  that it starts runs in a goroutine of its own.
\<close>

definition NewSession :: "'st env \<Rightarrow> ConnectionID \<Rightarrow> 'st Session" where
  "NewSession env cid =
     snd (NewStream env
            \<lparr>connectionID = cid, streams = Map.empty, sendingScheduled = False, closeChan = 0,
             closed = False, lastRcvdPacketNumber = 0, calls = []\<rparr> 1)"

text \<open>
  What can happen to a session: an iteration of the loop of \<^verbatim>\<open>Run\<close>, and the calls
  that the application and the handshake make from outside the loop. A history of the
  session is a list of these, one after the other.
\<close>

datatype operation =
    Iteration selected
  | CallNewStream StreamID
  | CallQueueStreamFrame StreamFrame
  | CallClose "error option" bool

fun perform :: "'st env \<Rightarrow> operation \<Rightarrow> 'st Session \<Rightarrow> 'st Session" where
  "perform env (Iteration sel) s = snd (iteration env s sel)"
| "perform env (CallNewStream sid) s = snd (NewStream env s sid)"
| "perform env (CallQueueStreamFrame frame) s = snd (QueueStreamFrame env s frame)"
| "perform env (CallClose e sendClose) s = snd (Close env s e sendClose)"

definition after :: "'st env \<Rightarrow> operation list \<Rightarrow> 'st Session \<Rightarrow> 'st Session" where
  "after env ops s = fold (perform env) ops s"

text \<open>
  What the operations keep, from a session \<open>s\<close> to a later session \<open>s'\<close>: a closed
  session stays closed, a close signal waits only in a closed session, a retired stream
  id stays retired, and a stream id of the table stays in the table.
\<close>

definition keeps :: "'st Session \<Rightarrow> 'st Session \<Rightarrow> bool" where
  "keeps s s' \<longleftrightarrow>
     (closed s \<longrightarrow> closed s')
     \<and> ((\<not> closed s \<longrightarrow> closeChan s = 0) \<longrightarrow> (\<not> closed s' \<longrightarrow> closeChan s' = 0))
     \<and> (\<forall>k. streams s k = Some None \<longrightarrow> streams s' k = Some None)
     \<and> (\<forall>k. streams s k \<noteq> None \<longrightarrow> streams s' k \<noteq> None)"

text \<open>
  The calls of the stream callback for one stream id, and what holds of them in every
  session: no call while the id is not in the table, and never more than one call.
  A step from \<open>s\<close> to \<open>s'\<close> is quiet when it calls no stream callback.
\<close>

fun is_callback :: "StreamID \<Rightarrow> 'st event \<Rightarrow> bool" where
  "is_callback k (E_streamCallback sid st) = (sid = k)"
| "is_callback k _ = False"

definition callbacks :: "StreamID \<Rightarrow> 'st Session \<Rightarrow> 'st history" where
  "callbacks k s = filter (is_callback k) (calls s)"


definition quiet :: "'st Session \<Rightarrow> 'st Session \<Rightarrow> bool" where
  "quiet s s' \<longleftrightarrow> (\<forall>k. callbacks k s' = callbacks k s)"

subsection \<open>Reading the calls of one operation\<close>

text \<open>The calls that were made between the session \<open>s\<close> and the later session \<open>s'\<close>.\<close>

definition new_calls :: "'st Session \<Rightarrow> 'st Session \<Rightarrow> 'st history" where
  "new_calls s s' = drop (length (calls s)) (calls s')"

text \<open>The two calls that account for a sent packet.\<close>

fun accounting :: "'st event \<Rightarrow> bool" where
  "accounting (E_SentPacket p res) = True"
| "accounting (E_OnPacketSent bif n len rt) = True"
| "accounting _ = False"

subsection \<open>Collaborators and sessions to run the model on\<close>

text \<open>
  A stream that keeps the frames it was given, its send window and its first error, and
  has finished reading once it holds a frame with the FIN bit. The collaborators of
  \<open>example_env\<close> always succeed; the error codes are those of the QUIC wire protocol.
  Its \<open>InferPacketNumber\<close> takes the number from the wire, which is what the function
  of package protocol gives when that number is the closest one to the last.
\<close>

record stream =
  st_frames :: "StreamFrame list"
  st_sendWindow :: ByteCount
  st_error :: "error option"

definition example_env :: "stream env" where
  "example_env =
     \<lparr>QUIC_DECRYPTION_FAILURE = 12,
      QUIC_PEER_GOING_AWAY = 16,
      QUIC_NETWORK_IDLE_TIMEOUT = 25,
      InferPacketNumber = (\<lambda>len last wire. wire),
      Error = (\<lambda>e. ''error''),
      newStream = (\<lambda>h sid. Inr \<lparr>st_frames = [], st_sendWindow = 0, st_error = None\<rparr>),
      AddStreamFrame = (\<lambda>st f. (st\<lparr>st_frames := st_frames st @ [f]\<rparr>, None)),
      UpdateFlowControlWindow =
        (\<lambda>st n. if st_sendWindow st < n then st\<lparr>st_sendWindow := n\<rparr> else st),
      RegisterError = (\<lambda>st e. if st_error st = None then st\<lparr>st_error := Some e\<rparr> else st),
      finishedReading = (\<lambda>st. list_ex sf_FinBit (st_frames st)),
      Unpack = (\<lambda>h raw hdr payload. Inr \<lparr>up_entropyBit = False, up_frames = [FPing]\<rparr>),
      PackPacket = (\<lambda>h sw fs b.
         Inr (Some \<lparr>pp_number = 1, pp_raw = [0, 0, 0], pp_frames = fs, pp_entropyBit = False\<rparr>)),
      packer_Empty = (\<lambda>h. True),
      Write = (\<lambda>p. map ucast [pr_connectionID p, pr_rejectedPacketNumber p, pr_nonceProof p]),
      ReceivedStopWaiting = (\<lambda>h f. None),
      ReceivedAck = (\<lambda>h f. Inr (50, [], [])),
      BytesInFlight = (\<lambda>h. 0),
      DequeuePacketForRetransmission = (\<lambda>h. None),
      GetControlFramesForRetransmission = (\<lambda>p. []),
      GetStreamFramesForRetransmission = (\<lambda>p. []),
      GetStopWaitingFrame = (\<lambda>h. None),
      DequeueAckFrame = (\<lambda>h. Inr None),
      SentPacket = (\<lambda>h p. None),
      GetCongestionWindow = (\<lambda>h. 1000),
      conn_write = (\<lambda>h b. None)\<rparr>"

definition fresh_stream :: stream where
  "fresh_stream = \<lparr>st_frames = [], st_sendWindow = 0, st_error = None\<rparr>"

definition fin_frame :: "StreamID \<Rightarrow> StreamFrame" where
  "fin_frame sid = \<lparr>sf_StreamID = sid, sf_FinBit = True, sf_Offset = 0, sf_Data = [1, 2, 3]\<rparr>"

text \<open>
  A session with the crypto stream 1, a stream 5 that has been read to its end, and a
  retired stream 7.
\<close>

definition example_session :: "stream Session" where
  "example_session =
     \<lparr>connectionID = 0x1337,
      streams = [1 \<mapsto> Some fresh_stream,
                 5 \<mapsto> Some (fresh_stream\<lparr>st_frames := [fin_frame 5]\<rparr>),
                 7 \<mapsto> None],
      sendingScheduled = False,
      closeChan = 0,
      closed = False,
      lastRcvdPacketNumber = 0,
      calls = []\<rparr>"

text \<open>The same collaborators, with an unpacker that cannot decrypt the packet.\<close>

definition undecryptable_env :: "stream env" where
  "undecryptable_env =
     example_env\<lparr>Unpack := \<lambda>h raw hdr payload.
        Inl (QuicError (QUIC_DECRYPTION_FAILURE example_env) ''decryption failure'')\<rparr>"



definition example_header :: PublicHeader where
  "example_header = \<lparr>Raw = [0x0c], ConnectionID = 0x1337, PacketNumberLen = 1, PacketNumber = 5\<rparr>"

section \<open>Properties\<close>

subsection \<open>Calls\<close>

lemma calls_call [simp]: "calls (call e s) = calls s @ [e]"
  by (simp add: call_def)

lemma new_calls_same [simp]: "new_calls s s = []"
  by (simp add: new_calls_def)

lemma calls_fold_call: "calls (fold (\<lambda>x. call (g x)) xs s) = calls s @ map g xs"
  by (induction xs arbitrary: s) simp_all

lemma call_fields [simp]:
  "closed (call ev s) = closed s"
  "closeChan (call ev s) = closeChan s"
  "connectionID (call ev s) = connectionID s"
  "streams (call ev s) = streams s"
  "lastRcvdPacketNumber (call ev s) = lastRcvdPacketNumber s"
  "sendingScheduled (call ev s) = sendingScheduled s"
  by (simp_all add: call_def)

lemmas example_defs =
  example_env_def example_session_def fresh_stream_def fin_frame_def

subsection \<open>The stream table\<close>

text \<open>
  C10: \<^verbatim>\<open>garbageCollectStreams\<close> removes no key of the stream table. An entry becomes
  nil exactly when it held a stream that has finished reading, and every other entry (a
  nil entry, a stream that has not finished) is as it was.
\<close>

theorem garbageCollectStreams_keeps_keys:
  "(streams s k \<noteq> None \<longrightarrow> streams (garbageCollectStreams env s) k \<noteq> None)
   \<and> ((streams s k \<noteq> Some None \<and> streams (garbageCollectStreams env s) k = Some None)
        \<longleftrightarrow> (\<exists>v. streams s k = Some (Some v) \<and> finishedReading env v))
   \<and> ((\<nexists>v. streams s k = Some (Some v) \<and> finishedReading env v)
        \<longrightarrow> streams (garbageCollectStreams env s) k = streams s k)"
  by (auto simp add: garbageCollectStreams_def split: option.splits)

theorem garbageCollectStreams_keeps_keys_witness:
  "streams example_session 5 \<noteq> None
   \<and> streams example_session 5 \<noteq> Some None
   \<and> streams (garbageCollectStreams example_env example_session) 5 = Some None
   \<and> (\<nexists>v. streams example_session 1 = Some (Some v) \<and> finishedReading example_env v)
   \<and> streams (garbageCollectStreams example_env example_session) 1 = streams example_session 1
   \<and> streams (garbageCollectStreams example_env example_session) 7 = Some None"
  using garbageCollectStreams_keeps_keys [of example_session 5 example_env]
        garbageCollectStreams_keeps_keys [of example_session 1 example_env]
        garbageCollectStreams_keeps_keys [of example_session 7 example_env]
  by (simp add: example_defs)

subsection \<open>Frame handlers\<close>

text \<open>
  \<^verbatim>\<open>handleWindowUpdateFrame\<close>, by the entry of the frame's stream id.
\<close>

lemma handleWindowUpdateFrame_cases:
  "wu_StreamID frame = 0 \<Longrightarrow> handleWindowUpdateFrame env s frame = (Returns None, s)"
  "wu_StreamID frame \<noteq> 0 \<Longrightarrow> streams s (wu_StreamID frame) = None
     \<Longrightarrow> handleWindowUpdateFrame env s frame = (Returns (Some errWindowUpdateOnInvalidStream), s)"
  "wu_StreamID frame \<noteq> 0 \<Longrightarrow> streams s (wu_StreamID frame) = Some (Some st)
     \<Longrightarrow> handleWindowUpdateFrame env s frame =
          (Returns None,
           s\<lparr>streams := (streams s)(wu_StreamID frame \<mapsto>
                Some (UpdateFlowControlWindow env st (wu_ByteOffset frame)))\<rparr>)"
  "wu_StreamID frame \<noteq> 0 \<Longrightarrow> streams s (wu_StreamID frame) = Some None
     \<Longrightarrow> handleWindowUpdateFrame env s frame = (Faults NilPointerDereference, s)"
  by (simp_all add: handleWindowUpdateFrame_def stream_UpdateFlowControlWindow_def)

text \<open>
  C3: a WINDOW_UPDATE frame for stream 0 is accepted with no effect, one for an id that
  is not in the table gives \<^verbatim>\<open>errWindowUpdateOnInvalidStream\<close>, and one for any entry of
  the table, nil or live, raises the window and returns nil without a fault. The code
  does not do the last for a nil entry: stream 5 is retired by the garbage collection,
  and the frame for it ends in a nil pointer dereference.
\<close>

theorem handleWindowUpdateFrame_retired_id_faults:
  "streams (garbageCollectStreams example_env example_session) 5 = Some None
   \<and> handleWindowUpdateFrame example_env (garbageCollectStreams example_env example_session)
        \<lparr>wu_StreamID = 5, wu_ByteOffset = 100\<rparr>
      = (Faults NilPointerDereference, garbageCollectStreams example_env example_session)"
  by (simp add: handleWindowUpdateFrame_def stream_UpdateFlowControlWindow_def
      garbageCollectStreams_def example_defs)

subsection \<open>The send scheduler\<close>

text \<open>
  C4: when the bytes in flight exceed the congestion window, \<^verbatim>\<open>sendPacket\<close> returns nil
  and leaves the session as it was, with no call to any collaborator after the two
  reads of the test; so whenever \<^verbatim>\<open>sendPacket\<close> asks the packer for a packet, the bytes
  in flight were at most the congestion window.
\<close>

theorem sendPacket_congestion_blocked:
  "(GetCongestionWindow env (calls s) < BytesInFlight env (calls s)
      \<longrightarrow> sendPacket env s = (Returns None, s))
   \<and> (E_PackPacket sw fs b res \<in> set (new_calls s (snd (sendPacket env s)))
      \<longrightarrow> BytesInFlight env (calls s) \<le> GetCongestionWindow env (calls s))"
proof (cases "BytesInFlight env (calls s) \<le> GetCongestionWindow env (calls s)")
  case True
  then show ?thesis by (auto dest: leD)
next
  case False
  then have "sendPacket env s = (Returns None, s)"
    by (simp add: sendPacket_def congestionAllowsSending_def)
  then show ?thesis by simp
qed

lemmas sendPacket_defs =
  sendPacket_def congestionAllowsSending_def dequeueRetransmission_def registerAndWrite_def
  scheduleSending_def new_calls_def call_def Let_def

theorem sendPacket_congestion_blocked_witness:
  "GetCongestionWindow (example_env\<lparr>BytesInFlight := \<lambda>h. 2000\<rparr>) (calls example_session)
     < BytesInFlight (example_env\<lparr>BytesInFlight := \<lambda>h. 2000\<rparr>) (calls example_session)
   \<and> sendPacket (example_env\<lparr>BytesInFlight := \<lambda>h. 2000\<rparr>) example_session
       = (Returns None, example_session)
   \<and> E_PackPacket None [] True
         (Inr (Some \<lparr>pp_number = 1, pp_raw = [0, 0, 0], pp_frames = [], pp_entropyBit = False\<rparr>))
       \<in> set (new_calls example_session (snd (sendPacket example_env example_session)))
   \<and> BytesInFlight example_env (calls example_session)
       \<le> GetCongestionWindow example_env (calls example_session)"
  using sendPacket_congestion_blocked [of "example_env\<lparr>BytesInFlight := \<lambda>h. 2000\<rparr>" example_session]
        sendPacket_congestion_blocked [of example_env example_session None "[]" True
          "Inr (Some \<lparr>pp_number = 1, pp_raw = [0, 0, 0], pp_frames = [], pp_entropyBit = False\<rparr>)"]
  by (simp add: sendPacket_defs example_defs)

text \<open>
  The calls of \<^verbatim>\<open>sendPacket\<close>: calls that do not account for a packet, and then either
  nothing more, or a refused \<^verbatim>\<open>SentPacket\<close> whose error is returned, or an accepted
  \<^verbatim>\<open>SentPacket\<close> followed at once by \<^verbatim>\<open>OnPacketSent\<close> for the same packet.
\<close>

lemma dequeueRetransmission_calls:
  "\<exists>xs. calls (snd (dequeueRetransmission env s)) = calls s @ xs \<and> (\<forall>e\<in>set xs. \<not> accounting e)"
  by (auto simp add: dequeueRetransmission_def Let_def calls_fold_call split: option.splits)

lemma registerAndWrite_calls:
  "\<exists>post. calls (snd (registerAndWrite env s packet)) = calls s @ post \<and>
     (post = [] \<or>
      (\<exists>p e. post = [E_SentPacket p (Some e)]
         \<and> fst (registerAndWrite env s packet) = Returns (Some e)) \<or>
      (\<exists>p bif ys. post = E_SentPacket p None # E_OnPacketSent bif (PacketNumber' p) (Length p) True # ys
         \<and> (\<forall>e\<in>set ys. \<not> accounting e)))"
  by (auto simp add: registerAndWrite_def Let_def calls_fold_call scheduleSending_def
      split: option.splits)

lemma sendPacket_calls:
  "\<exists>pre post. calls (snd (sendPacket env s)) = calls s @ pre @ post \<and>
     (\<forall>e\<in>set pre. \<not> accounting e) \<and>
     (post = [] \<or>
      (\<exists>p e. post = [E_SentPacket p (Some e)] \<and> fst (sendPacket env s) = Returns (Some e)) \<or>
      (\<exists>p bif ys. post = E_SentPacket p None # E_OnPacketSent bif (PacketNumber' p) (Length p) True # ys
         \<and> (\<forall>e\<in>set ys. \<not> accounting e)))"
proof (cases "congestionAllowsSending env s")
  case False
  then have "sendPacket env s = (Returns None, s)"
    by (simp add: sendPacket_def)
  then show ?thesis by simp
next
  case True
  obtain controlFrames s1 where d: "dequeueRetransmission env s = (controlFrames, s1)"
    by (cases "dequeueRetransmission env s")
  obtain xs where xs: "calls s1 = calls s @ xs" "\<forall>e\<in>set xs. \<not> accounting e"
    using dequeueRetransmission_calls [of env s] d by auto
  define stopWaitingFrame where "stopWaitingFrame = GetStopWaitingFrame env (calls s1)"
  define s2 where "s2 = call (E_GetStopWaitingFrame stopWaitingFrame) s1"
  define res where "res = DequeueAckFrame env (calls s2)"
  define s3 where "s3 = call (E_DequeueAckFrame res) s2"
  have c3: "calls s3 = calls s @ (xs @ [E_GetStopWaitingFrame stopWaitingFrame, E_DequeueAckFrame res])"
    by (simp add: s3_def s2_def xs)
  show ?thesis
  proof (cases res)
    case (Inl err)
    then have "sendPacket env s = (Returns (Some err), s3)"
      using True d by (simp add: sendPacket_def Let_def s3_def s2_def res_def stopWaitingFrame_def)
    then show ?thesis
      using c3 xs(2)
      by (intro exI [of _ "xs @ [E_GetStopWaitingFrame stopWaitingFrame, E_DequeueAckFrame res]"]
            exI [of _ "[]"]) auto
  next
    case (Inr ack)
    define controlFrames' where
      "controlFrames' = (case ack of None \<Rightarrow> controlFrames | Some a \<Rightarrow> controlFrames @ [FAck a])"
    define packed where "packed = PackPacket env (calls s3) stopWaitingFrame controlFrames' True"
    define s4 where "s4 = call (E_PackPacket stopWaitingFrame controlFrames' True packed) s3"
    define pre where "pre = xs @ [E_GetStopWaitingFrame stopWaitingFrame, E_DequeueAckFrame res,
       E_PackPacket stopWaitingFrame controlFrames' True packed]"
    have c4: "calls s4 = calls s @ pre"
      by (simp add: s4_def c3 pre_def)
    have pre: "\<forall>e\<in>set pre. \<not> accounting e"
      using xs(2) by (auto simp add: pre_def)
    have sp: "sendPacket env s =
        (case packed of
           Inl err \<Rightarrow> (Returns (Some err), s4)
         | Inr None \<Rightarrow> (Returns None, s4)
         | Inr (Some packet) \<Rightarrow> registerAndWrite env s4 packet)"
      unfolding s4_def packed_def controlFrames'_def s3_def s2_def res_def stopWaitingFrame_def
      using True d Inr [unfolded res_def s2_def stopWaitingFrame_def]
      by (simp add: sendPacket_def Let_def cong: sum.case_cong option.case_cong)
    show ?thesis
    proof (cases packed)
      case (Inl err)
      then have "sendPacket env s = (Returns (Some err), s4)" using sp by simp
      then show ?thesis
        using c4 pre by (intro exI [of _ pre] exI [of _ "[]"]) auto
    next
      case (Inr opt)
      show ?thesis
      proof (cases opt)
        case None
        then have "sendPacket env s = (Returns None, s4)" using sp Inr by simp
        then show ?thesis
          using c4 pre by (intro exI [of _ pre] exI [of _ "[]"]) auto
      next
        case (Some packet)
        then have eq: "sendPacket env s = registerAndWrite env s4 packet" using sp Inr by simp
        obtain post where post: "calls (snd (registerAndWrite env s4 packet)) = calls s4 @ post"
          "post = [] \<or>
           (\<exists>p e. post = [E_SentPacket p (Some e)]
              \<and> fst (registerAndWrite env s4 packet) = Returns (Some e)) \<or>
           (\<exists>p bif ys. post = E_SentPacket p None # E_OnPacketSent bif (PacketNumber' p) (Length p) True # ys
              \<and> (\<forall>e\<in>set ys. \<not> accounting e))"
          using registerAndWrite_calls [of env s4 packet] by blast
        show ?thesis
          using post pre c4 unfolding eq
          by (intro exI [of _ pre] exI [of _ post]) simp
      qed
    qed
  qed
qed

text \<open>
  C6: in every run of \<^verbatim>\<open>sendPacket\<close>, \<^verbatim>\<open>OnPacketSent\<close> is called for a packet number
  exactly when \<^verbatim>\<open>SentPacket\<close> was called for that packet and returned no error; and when
  \<^verbatim>\<open>SentPacket\<close> returns an error, \<^verbatim>\<open>sendPacket\<close> returns that error and the congestion
  controller is not called.
\<close>

theorem sendPacket_accounting:
  "((\<exists>bif len rt. E_OnPacketSent bif n len rt \<in> set (new_calls s (snd (sendPacket env s))))
      \<longleftrightarrow> (\<exists>p. PacketNumber' p = n \<and> E_SentPacket p None \<in> set (new_calls s (snd (sendPacket env s)))))
   \<and> (E_SentPacket p (Some e) \<in> set (new_calls s (snd (sendPacket env s)))
      \<longrightarrow> fst (sendPacket env s) = Returns (Some e)
          \<and> (\<forall>bif n len rt. E_OnPacketSent bif n len rt \<notin> set (new_calls s (snd (sendPacket env s)))))"
proof -
  obtain pre post where c: "calls (snd (sendPacket env s)) = calls s @ pre @ post"
    and pre: "\<forall>e\<in>set pre. \<not> accounting e"
    and post: "post = [] \<or>
      (\<exists>p e. post = [E_SentPacket p (Some e)] \<and> fst (sendPacket env s) = Returns (Some e)) \<or>
      (\<exists>p bif ys. post = E_SentPacket p None # E_OnPacketSent bif (PacketNumber' p) (Length p) True # ys
         \<and> (\<forall>e\<in>set ys. \<not> accounting e))"
    using sendPacket_calls [of env s] by blast
  have n: "new_calls s (snd (sendPacket env s)) = pre @ post"
    by (simp add: new_calls_def c)
  have a1: "\<And>x. x \<in> set pre \<Longrightarrow> accounting x \<Longrightarrow> False"
    using pre by blast
  from post show ?thesis
  proof (elim disjE exE conjE)
    assume "post = []"
    then show ?thesis unfolding n using a1 by fastforce
  next
    fix q e' assume "post = [E_SentPacket q (Some e')]" "fst (sendPacket env s) = Returns (Some e')"
    then show ?thesis unfolding n using a1 by fastforce
  next
    fix q bif ys
    assume p: "post = E_SentPacket q None # E_OnPacketSent bif (PacketNumber' q) (Length q) True # ys"
      and ys: "\<forall>e\<in>set ys. \<not> accounting e"
    have a2: "\<And>x. x \<in> set ys \<Longrightarrow> accounting x \<Longrightarrow> False"
      using ys by blast
    show ?thesis unfolding n p using a1 a2 by fastforce
  qed
qed

theorem sendPacket_accounting_witness:
  "E_OnPacketSent 0 1 3 True
     \<in> set (new_calls example_session (snd (sendPacket example_env example_session)))
   \<and> E_SentPacket \<lparr>PacketNumber' = 1, Frames = [], EntropyBit = False, Length = 3\<rparr> None
     \<in> set (new_calls example_session (snd (sendPacket example_env example_session)))
   \<and> E_SentPacket \<lparr>PacketNumber' = 1, Frames = [], EntropyBit = False, Length = 3\<rparr>
        (Some ErrMapAccess)
     \<in> set (new_calls example_session
          (snd (sendPacket (example_env\<lparr>SentPacket := \<lambda>h p. Some ErrMapAccess\<rparr>) example_session)))
   \<and> fst (sendPacket (example_env\<lparr>SentPacket := \<lambda>h p. Some ErrMapAccess\<rparr>) example_session)
       = Returns (Some ErrMapAccess)
   \<and> E_OnPacketSent 0 1 3 True
     \<notin> set (new_calls example_session
          (snd (sendPacket (example_env\<lparr>SentPacket := \<lambda>h p. Some ErrMapAccess\<rparr>) example_session)))"
  using sendPacket_accounting [of 1 example_session example_env]
        sendPacket_accounting [of 1 example_session
          "example_env\<lparr>SentPacket := \<lambda>h p. Some ErrMapAccess\<rparr>"
          "\<lparr>PacketNumber' = 1, Frames = [], EntropyBit = False, Length = 3\<rparr>" ErrMapAccess]
  by (simp add: sendPacket_defs example_defs)

subsection \<open>The close machine\<close>

lemma closeStreamsWithError_fields [simp]:
  "closed (closeStreamsWithError env s err) = closed s"
  "closeChan (closeStreamsWithError env s err) = closeChan s"
  "connectionID (closeStreamsWithError env s err) = connectionID s"
  "lastRcvdPacketNumber (closeStreamsWithError env s err) = lastRcvdPacketNumber s"
  "calls (closeStreamsWithError env s err) = calls s"
  by (simp_all add: closeStreamsWithError_def)

lemma sendPublicReset_eq:
  "sendPublicReset env s pn =
     (Returns (conn_write env (calls s @ [E_Log Infof])
                 (Write env \<lparr>pr_connectionID = connectionID s, pr_rejectedPacketNumber = pn,
                              pr_nonceProof = 0\<rparr>)),
      s\<lparr>calls := calls s @
          [E_Log Infof,
           E_write (Write env \<lparr>pr_connectionID = connectionID s, pr_rejectedPacketNumber = pn,
                                pr_nonceProof = 0\<rparr>)
             (conn_write env (calls s @ [E_Log Infof])
                (Write env \<lparr>pr_connectionID = connectionID s, pr_rejectedPacketNumber = pn,
                             pr_nonceProof = 0\<rparr>))]\<rparr>)"
  by (simp add: sendPublicReset_def Let_def call_def)

lemma sendConnectionClose_fields:
  "closed (snd (sendConnectionClose env s c rp)) = closed s"
  "closeChan (snd (sendConnectionClose env s c rp)) = closeChan s"
  "streams (snd (sendConnectionClose env s c rp)) = streams s"
  by (simp_all add: sendConnectionClose_def Let_def split: sum.splits option.splits)

lemma sendConnectionClose_calls:
  "\<exists>xs. calls (snd (sendConnectionClose env s c rp)) = calls s @ xs
     \<and> (\<forall>i. E_closeCallback i \<notin> set xs)"
  by (simp add: sendConnectionClose_def Let_def split: sum.splits option.splits)

lemma Close_closed: "closed (snd (Close env s e sendClose))"
  by (simp add: Close_def Let_def sendPublicReset_eq sendConnectionClose_fields)

lemma Close_again: "closed s \<Longrightarrow> Close env s e sendClose = (Returns None, s)"
  by (simp add: Close_def)

lemma Close_first:
  assumes "\<not> closed s" "closeChan s = 0"
  shows "closeChan (snd (Close env s e sendClose)) = 1"
    and "\<exists>xs. calls (snd (Close env s e sendClose)) = calls s @ E_closeCallback (connectionID s) # xs
           \<and> (\<forall>i. E_closeCallback i \<notin> set xs)"
proof -
  show "closeChan (snd (Close env s e sendClose)) = 1"
    using assms by (simp add: Close_def Let_def sendPublicReset_eq sendConnectionClose_fields)
  define e' where "e' = (case e of None \<Rightarrow> QuicError (QUIC_PEER_GOING_AWAY env) ''peer going away''
                                | Some x \<Rightarrow> x)"
  define s3 where "s3 = call (E_closeCallback (connectionID s)) (s\<lparr>closed := True, closeChan := Suc 0\<rparr>)"
  define s5 where "s5 = closeStreamsWithError env (call (E_Log Errorf) s3) e'"
  have c5: "calls s5 = calls s @ [E_closeCallback (connectionID s), E_Log Errorf]"
    by (simp add: s5_def s3_def)
  consider (quiet) "\<not> sendClose" | (reset) "sendClose" "errorCodeOf e' = QUIC_DECRYPTION_FAILURE env"
    | (cc) "sendClose" "errorCodeOf e' \<noteq> QUIC_DECRYPTION_FAILURE env"
    by blast
  then show "\<exists>xs. calls (snd (Close env s e sendClose)) = calls s @ E_closeCallback (connectionID s) # xs
           \<and> (\<forall>i. E_closeCallback i \<notin> set xs)"
  proof cases
    case quiet
    then show ?thesis using assms by (simp add: Close_def Let_def)
  next
    case reset
    then have "Close env s e sendClose = sendPublicReset env s5 (lastRcvdPacketNumber s5)"
      using assms unfolding s5_def s3_def e'_def by (simp add: Close_def Let_def)
    then show ?thesis by (simp add: sendPublicReset_eq c5)
  next
    case cc
    then have "Close env s e sendClose = sendConnectionClose env s5 (errorCodeOf e') (Error env e')"
      using assms unfolding s5_def s3_def e'_def by (simp add: Close_def Let_def)
    then show ?thesis
      using sendConnectionClose_calls [of env s5 "errorCodeOf e'" "Error env e'"]
      by (auto simp add: c5)
  qed
qed

subsection \<open>What every operation keeps\<close>

lemma keeps_refl [simp]: "keeps s s"
  by (simp add: keeps_def)

lemma keeps_trans: "keeps s s1 \<Longrightarrow> keeps s1 s2 \<Longrightarrow> keeps s s2"
  by (simp add: keeps_def)

lemma keeps_same_fields:
  "closed s' = closed s \<Longrightarrow> closeChan s' = closeChan s
     \<Longrightarrow> (\<And>k. streams s k = Some None \<Longrightarrow> streams s' k = Some None)
     \<Longrightarrow> (\<And>k. streams s k \<noteq> None \<Longrightarrow> streams s' k \<noteq> None) \<Longrightarrow> keeps s s'"
  by (simp add: keeps_def)

lemma keeps_call [simp]: "keeps s (call ev s)"
  by (simp add: keeps_def)

lemma keeps_fold_call: "keeps s (fold (\<lambda>x. call (g x)) xs s)"
proof (induction xs arbitrary: s)
  case Nil
  show ?case by simp
next
  case (Cons x xs)
  show ?case
    using keeps_trans [OF keeps_call Cons [of "call (g x) s"]] by simp
qed

lemma keeps_scheduleSending [simp]: "keeps s (scheduleSending s)"
  by (simp add: keeps_def scheduleSending_def)

lemma keeps_garbageCollectStreams: "keeps s (garbageCollectStreams env s)"
  by (auto simp add: keeps_def garbageCollectStreams_def split: option.splits)

lemma keeps_closeStreamsWithError: "keeps s (closeStreamsWithError env s err)"
  by (auto simp add: keeps_def closeStreamsWithError_def split: option.splits)

lemma keeps_handleStreamFrame: "keeps s (snd (handleStreamFrame env s frame))"
  by (rule keeps_same_fields)
    (auto simp add: handleStreamFrame_def addToStream_def throughPointer_def NewStream_def index_def Let_def
       split: option.splits sum.splits prod.splits if_splits)

lemma keeps_handleWindowUpdateFrame: "keeps s (snd (handleWindowUpdateFrame env s frame))"
  by (rule keeps_same_fields)
    (auto simp add: handleWindowUpdateFrame_def stream_UpdateFlowControlWindow_def
       split: option.splits sum.splits)

lemma keeps_handleRstStreamFrame: "keeps s (snd (handleRstStreamFrame env s frame))"
  by (rule keeps_same_fields)
    (auto simp add: handleRstStreamFrame_def split: option.splits)

lemma keeps_handleAckFrame: "keeps s (snd (handleAckFrame env s frame))"
  by (rule keeps_same_fields)
    (auto simp add: handleAckFrame_def Let_def split: sum.splits)


lemma keeps_sendPublicReset: "keeps s (snd (sendPublicReset env s pn))"
  by (simp add: sendPublicReset_eq keeps_def)

lemma keeps_sendConnectionClose: "keeps s (snd (sendConnectionClose env s c rp))"
  by (simp add: keeps_def sendConnectionClose_fields)

lemma Close_retired:
  "streams s k = Some None \<Longrightarrow> streams (snd (Close env s e sendClose)) k = Some None"
  by (simp add: Close_def Let_def sendPublicReset_eq sendConnectionClose_fields
      closeStreamsWithError_def)

lemma Close_present:
  "streams s k \<noteq> None \<Longrightarrow> streams (snd (Close env s e sendClose)) k \<noteq> None"
  by (auto simp add: Close_def Let_def sendPublicReset_eq sendConnectionClose_fields
      closeStreamsWithError_def split: option.splits)

lemma keeps_Close: "keeps s (snd (Close env s e sendClose))"
  by (simp add: keeps_def Close_closed Close_retired Close_present)

lemma keeps_handleFrame: "keeps s (snd (handleFrame env s ff))"
proof (cases ff)
  case (FStream frame)
  then show ?thesis
    using keeps_trans [OF keeps_call keeps_handleStreamFrame [of "call (E_Log Debugf) s" env frame]]
    by (simp add: handleFrame_def)
next
  case (FAck frame)
  then show ?thesis by (simp add: handleFrame_def keeps_handleAckFrame)
next
  case (FConnectionClose frame)
  then show ?thesis
    using keeps_trans [OF keeps_call keeps_Close [of "call (E_Log Debugf) s" env None False]]
    by (auto simp add: handleFrame_def split: prod.splits outcome.splits)
next
  case (FStopWaiting frame)
  then show ?thesis by (simp add: handleFrame_def Let_def keeps_def)
next
  case (FRstStream frame)
  then show ?thesis
    using keeps_trans [OF keeps_handleRstStreamFrame [of s env frame] keeps_call]
    by (auto simp add: handleFrame_def split: prod.splits)
next
  case (FWindowUpdate frame)
  then show ?thesis
    using keeps_trans [OF keeps_call keeps_handleWindowUpdateFrame [of "call (E_Log Debugf) s" env frame]]
    by (simp add: handleFrame_def)
next
  case (FBlocked frame)
  then show ?thesis by (simp add: handleFrame_def)
next
  case FPing
  then show ?thesis by (simp add: handleFrame_def)
next
  case FOther
  then show ?thesis by (simp add: handleFrame_def)
qed

lemma keeps_handleFrames: "keeps s (snd (handleFrames env s fs))"
proof (induction fs arbitrary: s)
  case Nil
  show ?case by simp
next
  case (Cons ff fs)
  obtain res s1 where h: "handleFrame env s ff = (res, s1)"
    by (cases "handleFrame env s ff")
  have k: "keeps s s1"
    using keeps_handleFrame [of s env ff] h by simp
  show ?case
    using k keeps_trans [OF k Cons [of s1]] h
    by (auto split: outcome.splits option.splits)
qed

lemma keeps_handlePacket: "keeps s (snd (handlePacket env s addr hdr payload))"
proof -
  define pn where "pn = InferPacketNumber env (PacketNumberLen hdr) (lastRcvdPacketNumber s) (PacketNumber hdr)"
  define s4 where "s4 = call (E_Unpack (Raw hdr) (hdr\<lparr>PacketNumber := pn\<rparr>) payload
       (Unpack env (calls s @ [E_Log Debugf, E_setCurrentRemoteAddr addr]) (Raw hdr)
          (hdr\<lparr>PacketNumber := pn\<rparr>) payload))
     (call (E_setCurrentRemoteAddr addr) (call (E_Log Debugf) (s\<lparr>lastRcvdPacketNumber := pn\<rparr>)))"
  have k4: "keeps s s4"
    by (simp add: s4_def keeps_def)
  show ?thesis
  proof (cases "Unpack env (calls s @ [E_Log Debugf, E_setCurrentRemoteAddr addr]) (Raw hdr)
          (hdr\<lparr>PacketNumber := pn\<rparr>) payload")
    case (Inl err)
    then have "snd (handlePacket env s addr hdr payload) = s4
               \<or> snd (handlePacket env s addr hdr payload) = call (E_Log Infof) s4"
      unfolding s4_def pn_def by (simp add: handlePacket_def Let_def)
    then show ?thesis
      using k4 keeps_trans [OF k4 keeps_call] by auto
  next
    case (Inr packet)
    then have "handlePacket env s addr hdr payload =
        handleFrames env (call (E_ReceivedPacket pn (up_entropyBit packet)) s4) (up_frames packet)"
      unfolding s4_def pn_def by (simp add: handlePacket_def Let_def)
    then show ?thesis
      using keeps_trans [OF keeps_trans [OF k4 keeps_call] keeps_handleFrames] by simp
  qed
qed


lemma fold_call_eq: "fold (\<lambda>x. call (g x)) xs s = s\<lparr>calls := calls s @ map g xs\<rparr>"
  by (induction xs arbitrary: s) (simp_all add: call_def)

lemma keeps_dequeueRetransmission: "keeps s (snd (dequeueRetransmission env s))"
  by (simp add: dequeueRetransmission_def Let_def fold_call_eq keeps_def split: option.splits)

lemma keeps_registerAndWrite: "keeps s (snd (registerAndWrite env s packet))"
  by (simp add: registerAndWrite_def Let_def fold_call_eq keeps_def scheduleSending_def
      split: option.splits)

lemma keeps_sendPacket: "keeps s (snd (sendPacket env s))"
proof (cases "congestionAllowsSending env s")
  case False
  then show ?thesis by (simp add: sendPacket_def)
next
  case True
  obtain controlFrames s1 where d: "dequeueRetransmission env s = (controlFrames, s1)"
    by (cases "dequeueRetransmission env s")
  have k1: "keeps s s1"
    using keeps_dequeueRetransmission [of s env] d by simp
  define s3 where "s3 = call (E_DequeueAckFrame (DequeueAckFrame env
        (calls (call (E_GetStopWaitingFrame (GetStopWaitingFrame env (calls s1))) s1))))
      (call (E_GetStopWaitingFrame (GetStopWaitingFrame env (calls s1))) s1)"
  have k3: "keeps s s3"
    using keeps_trans [OF k1, of s3] by (simp add: s3_def keeps_def)
  have "snd (sendPacket env s) = s3
        \<or> (\<exists>ev. snd (sendPacket env s) = call ev s3)
        \<or> (\<exists>ev packet. snd (sendPacket env s) = snd (registerAndWrite env (call ev s3) packet))"
    using True d unfolding s3_def
    by (auto simp add: sendPacket_def Let_def split: sum.splits option.splits)
  then show ?thesis
    using k3 keeps_trans [OF k3 keeps_call]
      keeps_trans [OF keeps_trans [OF k3 keeps_call] keeps_registerAndWrite]
    by auto
qed

lemma keeps_QueueStreamFrame: "keeps s (snd (QueueStreamFrame env s frame))"
  by (simp add: QueueStreamFrame_def keeps_def scheduleSending_def)

lemma keeps_handleLoopError: "keeps s (snd (handleLoopError env s err))"
  using keeps_Close [of s env err True]
  by (auto simp add: handleLoopError_def closeFromLoop_def split: option.splits prod.splits outcome.splits)

lemma keeps_selectedCase: "keeps s (snd (selectedCase env s sel))"
proof (cases sel)
  case (case_receivedPackets p)
  then show ?thesis
    using keeps_handlePacket [of s env "remoteAddr p" "publicHeader p" "r p"]
    by (auto simp add: selectedCase_def elim: keeps_trans split: prod.splits outcome.splits)
next
  case case_sendingScheduled
  have "keeps s (s\<lparr>sendingScheduled := False\<rparr>)" by (simp add: keeps_def)
  then show ?thesis
    using case_sendingScheduled keeps_sendPacket [of "s\<lparr>sendingScheduled := False\<rparr>" env]
    by (auto simp add: selectedCase_def elim: keeps_trans)
next
  case case_timeout
  then show ?thesis
    using keeps_Close [of s env
        "Some (QuicError (QUIC_NETWORK_IDLE_TIMEOUT env) ''No recent network activity.'')" True]
    by (auto simp add: selectedCase_def split: prod.splits outcome.splits)
qed

lemma keeps_iteration: "keeps s (snd (iteration env s sel))"
proof (cases "0 < closeChan s")
  case True
  then show ?thesis by (auto simp add: iteration_def keeps_def)
next
  case False
  obtain res s1 where c: "selectedCase env s sel = (res, s1)"
    by (cases "selectedCase env s sel")
  have k1: "keeps s s1" using keeps_selectedCase [of s env sel] c by simp
  show ?thesis
  proof (cases res)
    case (Faults f)
    then show ?thesis using False c k1 by (simp add: iteration_def)
  next
    case (Returns err)
    obtain res2 s2 where h: "handleLoopError env s1 err = (res2, s2)"
      by (cases "handleLoopError env s1 err")
    have k2: "keeps s s2"
      using keeps_trans [OF k1 keeps_handleLoopError [of s1 env err]] h by simp
    show ?thesis
      using False c Returns h k2 keeps_trans [OF k2 keeps_garbageCollectStreams]
      by (cases res2) (simp_all add: iteration_def)
  qed
qed

lemma keeps_Run: "keeps s (snd (Run env s sels))"
proof (induction sels arbitrary: s)
  case Nil
  show ?case by simp
next
  case (Cons sel sels)
  obtain res s1 where i: "iteration env s sel = (res, s1)"
    by (cases "iteration env s sel")
  have k: "keeps s s1" using keeps_iteration [of s env sel] i by simp
  show ?case
    using i k keeps_trans [OF k Cons [of s1]]
    by (auto split: outcome.splits bool.splits)
qed

subsection \<open>Histories\<close>

lemma NewStream_flags:
  "closed (snd (NewStream env s sid)) = closed s"
  "closeChan (snd (NewStream env s sid)) = closeChan s"
  by (simp_all add: NewStream_def split: sum.splits)

lemma NewStream_other_id:
  "k \<noteq> sid \<Longrightarrow> streams (snd (NewStream env s sid)) k = streams s k"
  by (simp add: NewStream_def split: sum.splits)

lemma closed_perform: "closed s \<Longrightarrow> closed (perform env op s)"
proof (cases op)
  case (CallNewStream sid)
  assume "closed s"
  then show ?thesis using CallNewStream by (simp add: NewStream_flags)
next
  case (Iteration sel)
  assume "closed s"
  then show ?thesis using Iteration keeps_iteration [of s env sel] by (simp add: keeps_def)
next
  case (CallQueueStreamFrame frame)
  assume "closed s"
  then show ?thesis using CallQueueStreamFrame keeps_QueueStreamFrame [of s env frame]
    by (simp add: keeps_def)
next
  case (CallClose e sendClose)
  then show ?thesis by (simp add: Close_closed)
qed

lemma closed_after: "closed s \<Longrightarrow> closed (after env ops s)"
  unfolding after_def by (induction ops arbitrary: s) (simp_all add: closed_perform)

text \<open>
  In a session that \<^verbatim>\<open>NewSession\<close> has made, after any history, a close signal waits
  only when the session is closed: \<^verbatim>\<open>Close\<close> is the only sender, and it sets the flag
  first. So the send on \<^verbatim>\<open>closeChan\<close> of a session that is not closed does not block.
\<close>

lemma close_signal_perform:
  assumes "\<not> closed s \<longrightarrow> closeChan s = 0"
  shows "\<not> closed (perform env op s) \<longrightarrow> closeChan (perform env op s) = 0"
proof (cases op)
  case (CallNewStream sid)
  then show ?thesis using assms by (simp add: NewStream_flags)
next
  case (Iteration sel)
  then show ?thesis using assms keeps_iteration [of s env sel] by (simp add: keeps_def)
next
  case (CallQueueStreamFrame frame)
  then show ?thesis using assms keeps_QueueStreamFrame [of s env frame] by (simp add: keeps_def)
next
  case (CallClose e sendClose)
  then show ?thesis by (simp add: Close_closed)
qed

lemma close_signal_after:
  "\<not> closed (after env ops (NewSession env cid)) \<longrightarrow> closeChan (after env ops (NewSession env cid)) = 0"
proof -
  have start: "\<not> closed (NewSession env cid) \<longrightarrow> closeChan (NewSession env cid) = 0"
    by (simp add: NewSession_def NewStream_flags)
  have step: "\<And>s. (\<not> closed s \<longrightarrow> closeChan s = 0)
      \<Longrightarrow> (\<not> closed (fold (perform env) ops s) \<longrightarrow> closeChan (fold (perform env) ops s) = 0)"
  proof (induction ops)
    case Nil
    then show ?case by simp
  next
    case (Cons op ops)
    show ?case
      using Cons.IH [OF close_signal_perform [OF Cons.prems, of env op]] by simp
  qed
  show ?thesis unfolding after_def by (rule step [OF start])
qed

lemma retired_perform:
  "op \<noteq> CallNewStream k \<Longrightarrow> streams s k = Some None \<Longrightarrow> streams (perform env op s) k = Some None"
proof (cases op)
  case (CallNewStream sid)
  assume "op \<noteq> CallNewStream k" "streams s k = Some None"
  then show ?thesis using CallNewStream by (simp add: NewStream_other_id)
next
  case (Iteration sel)
  assume "streams s k = Some None"
  then show ?thesis using Iteration keeps_iteration [of s env sel] by (simp add: keeps_def)
next
  case (CallQueueStreamFrame frame)
  assume "streams s k = Some None"
  then show ?thesis using CallQueueStreamFrame keeps_QueueStreamFrame [of s env frame]
    by (simp add: keeps_def)
next
  case (CallClose e sendClose)
  assume "streams s k = Some None"
  then show ?thesis using CallClose by (simp add: Close_retired)
qed

lemma retired_after:
  "CallNewStream k \<notin> set ops \<Longrightarrow> streams s k = Some None
     \<Longrightarrow> streams (after env ops s) k = Some None"
  unfolding after_def by (induction ops arbitrary: s) (auto simp add: retired_perform)

text \<open>
  So a retired stream id stays retired in every history of a session in which
  \<^verbatim>\<open>NewStream\<close> is not called for that id: the frame handlers, \<^verbatim>\<open>sendPacket\<close>,
  \<^verbatim>\<open>Close\<close>, the garbage collection and \<^verbatim>\<open>QueueStreamFrame\<close> all leave it as it is.
\<close>

text \<open>
  C1: a stream id whose entry is nil is never made live again, by no operation. The
  code does not keep this for \<^verbatim>\<open>NewStream\<close>: its test \<^verbatim>\<open>s.streams[id] != nil\<close> reads a
  retired id like an id that was never used. Here stream 5 is retired by the garbage
  collection, at the end of an iteration of the loop, and \<^verbatim>\<open>NewStream(5)\<close> then returns
  a stream and puts it in the table.
\<close>

theorem NewStream_reopens_retired_id:
  "streams (garbageCollectStreams example_env example_session) 5 = Some None
   \<and> fst (NewStream example_env (garbageCollectStreams example_env example_session) 5)
       = Inr fresh_stream
   \<and> streams (snd (NewStream example_env (garbageCollectStreams example_env example_session) 5)) 5
       = Some (Some fresh_stream)
   \<and> streams (after example_env [Iteration case_sendingScheduled] example_session) 5 = Some None
   \<and> streams (after example_env [Iteration case_sendingScheduled, CallNewStream 5] example_session) 5
       = Some (Some fresh_stream)"
  by (simp add: after_def iteration_def selectedCase_def handleLoopError_def NewStream_def
      index_def garbageCollectStreams_def sendPacket_defs example_defs)




subsection \<open>One callback for a stream\<close>

text \<open>
  Only \<^verbatim>\<open>handleStreamFrame\<close> calls the stream callback, and only for an id that is not
  in the table, which it then is. So in a session that \<^verbatim>\<open>NewSession\<close> has made, after
  any history, the callback has been called at most once for a stream id.
\<close>

lemma quiet_refl [simp]: "quiet s s"
  by (simp add: quiet_def)


lemma quiet_calls: "calls s' = calls s @ xs \<Longrightarrow> (\<And>k e. e \<in> set xs \<Longrightarrow> \<not> is_callback k e) \<Longrightarrow> quiet s s'"
  by (simp add: quiet_def callbacks_def)

lemma quiet_same_calls: "calls s' = calls s \<Longrightarrow> quiet s s'"
  by (simp add: quiet_def callbacks_def)












lemma quiet_NewStream: "quiet s (snd (NewStream env s sid))"
  by (simp add: NewStream_def quiet_def callbacks_def split: sum.splits)

















subsection \<open>Stream frames\<close>




subsection \<open>Closing\<close>

text \<open>
  C7: \<^verbatim>\<open>Close\<close> is idempotent. A call on a closed session returns nil and changes
  nothing. The first call (the session is not closed, and so no close signal is waiting)
  sets the closed flag, puts one signal on \<^verbatim>\<open>closeChan\<close> and calls the close callback
  once, with the connection id. After any call the session is closed, so every later
  call, whatever its arguments, returns nil and changes nothing. No operation of the
  session clears the flag: a closed session is closed after every history.
\<close>

theorem Close_idempotent:
  "(closed s \<longrightarrow> Close env s e sendClose = (Returns None, s))
   \<and> (\<not> closed s \<and> closeChan s = 0
        \<longrightarrow> closed (snd (Close env s e sendClose))
          \<and> closeChan (snd (Close env s e sendClose)) = 1
          \<and> filter (\<lambda>c. \<exists>i. c = E_closeCallback i) (new_calls s (snd (Close env s e sendClose)))
              = [E_closeCallback (connectionID s)])
   \<and> Close env (snd (Close env s e sendClose)) e' sendClose'
        = (Returns None, snd (Close env s e sendClose))
   \<and> (closed s \<longrightarrow> closed (after env ops s))"
proof (intro conjI impI)
  assume "closed s"
  then show "Close env s e sendClose = (Returns None, s)" by (rule Close_again)
next
  assume "closed s"
  then show "closed (after env ops s)" by (rule closed_after)
next
  show "Close env (snd (Close env s e sendClose)) e' sendClose'
        = (Returns None, snd (Close env s e sendClose))"
    by (rule Close_again) (rule Close_closed)
next
  assume a: "\<not> closed s \<and> closeChan s = 0"
  show "closed (snd (Close env s e sendClose))" by (rule Close_closed)
  show "closeChan (snd (Close env s e sendClose)) = 1"
    using a Close_first(1) by blast
  obtain xs where xs: "calls (snd (Close env s e sendClose)) = calls s @ E_closeCallback (connectionID s) # xs"
    "\<forall>i. E_closeCallback i \<notin> set xs"
    using a Close_first(2) by blast
  have "filter (\<lambda>c. \<exists>i. c = E_closeCallback i) xs = []"
    using xs(2) by (auto simp add: filter_empty_conv)
  then show "filter (\<lambda>c. \<exists>i. c = E_closeCallback i) (new_calls s (snd (Close env s e sendClose)))
              = [E_closeCallback (connectionID s)]"
    by (simp add: new_calls_def xs(1))
qed

theorem Close_idempotent_witness:
  "closed (example_session\<lparr>closed := True\<rparr>)
   \<and> Close example_env (example_session\<lparr>closed := True\<rparr>) None True
       = (Returns None, example_session\<lparr>closed := True\<rparr>)
   \<and> \<not> closed example_session \<and> closeChan example_session = 0
   \<and> closed (snd (Close example_env example_session None True))
   \<and> closeChan (snd (Close example_env example_session None True)) = 1
   \<and> filter (\<lambda>c. \<exists>i. c = E_closeCallback i)
        (new_calls example_session (snd (Close example_env example_session None True)))
       = [E_closeCallback 0x1337]
   \<and> closed (after example_env [CallNewStream 9] (example_session\<lparr>closed := True\<rparr>))"
  using Close_idempotent [where s = "example_session\<lparr>closed := True\<rparr>" and env = example_env
          and e = None and sendClose = True and ops = "[CallNewStream 9]"]
        Close_idempotent [where s = example_session and env = example_env and e = None
          and sendClose = True]
  by (simp add: example_defs)

text \<open>
  C8, as the code has it: when \<^verbatim>\<open>Close\<close> is called on a session that is not closed
  yet, with \<^verbatim>\<open>sendConnectionClose\<close> true and an error whose code is
  \<^verbatim>\<open>QUIC_DECRYPTION_FAILURE\<close>, the session writes a public reset packet with its
  connection id, the last received packet number and a nonce proof of zero. These are
  all the calls that it makes: the packer is not asked for a CONNECTION_CLOSE packet.
\<close>

theorem Close_decryption_failure_public_reset:
  "\<not> closed s \<and> closeChan s = 0 \<longrightarrow>
     (let b = Write env \<lparr>pr_connectionID = connectionID s,
                         pr_rejectedPacketNumber = lastRcvdPacketNumber s,
                         pr_nonceProof = 0\<rparr>;
          w = conn_write env
                (calls s @ [E_closeCallback (connectionID s), E_Log Errorf, E_Log Infof]) b
      in fst (Close env s (Some (QuicError (QUIC_DECRYPTION_FAILURE env) msg)) True) = Returns w
       \<and> new_calls s (snd (Close env s (Some (QuicError (QUIC_DECRYPTION_FAILURE env) msg)) True))
          = [E_closeCallback (connectionID s), E_Log Errorf, E_Log Infof, E_write b w])"
  by (simp add: Close_def Let_def errorCodeOf_def sendPublicReset_eq new_calls_def)

theorem Close_decryption_failure_public_reset_witness:
  "\<not> closed example_session \<and> closeChan example_session = 0
   \<and> fst (Close example_env example_session
            (Some (QuicError (QUIC_DECRYPTION_FAILURE example_env) ''decryption failure'')) True)
       = Returns None
   \<and> new_calls example_session
        (snd (Close example_env example_session
            (Some (QuicError (QUIC_DECRYPTION_FAILURE example_env) ''decryption failure'')) True))
       = [E_closeCallback 0x1337, E_Log Errorf, E_Log Infof, E_write [0x37, 0, 0] None]"
  using Close_decryption_failure_public_reset [of example_session example_env "''decryption failure''"]
  by (simp add: example_defs Let_def)

text \<open>
  C8 as it is stated holds for no session that is closed already: after the close that
  a CONNECTION_CLOSE frame of the peer causes, \<^verbatim>\<open>Close\<close> with a decryption failure and
  \<^verbatim>\<open>sendConnectionClose\<close> true makes no call at all, and no public reset is written.
\<close>

theorem Close_decryption_failure_counterexample:
  "closed (snd (Close example_env example_session None False))
   \<and> new_calls (snd (Close example_env example_session None False))
        (snd (Close example_env (snd (Close example_env example_session None False))
            (Some (QuicError (QUIC_DECRYPTION_FAILURE example_env) ''decryption failure'')) True))
       = []"
  by (simp add: Close_again Close_closed)

subsection \<open>The event loop\<close>

text \<open>
  C9: what the loop does with the error of an iteration. \<^verbatim>\<open>ErrDuplicateOrOutOfOrderAck\<close>
  is dropped and nothing happens; \<^verbatim>\<open>ErrMapAccess\<close> makes the loop call \<^verbatim>\<open>Close\<close> with
  that error and true; \<^verbatim>\<open>errRstStreamOnInvalidStream\<close> is logged and nothing else
  happens; every other error makes the loop call \<^verbatim>\<open>Close\<close> with that error and true.
  The error is the one that the handler of the iteration returned, and the garbage
  collection follows.
\<close>

theorem handleLoopError_cases:
  "handleLoopError env s (Some ErrDuplicateOrOutOfOrderAck) = (Returns (), s)
   \<and> snd (handleLoopError env s (Some ErrMapAccess)) = snd (Close env s (Some ErrMapAccess) True)
   \<and> handleLoopError env s (Some errRstStreamOnInvalidStream) = (Returns (), call (E_Log Errorf) s)
   \<and> (e \<noteq> ErrDuplicateOrOutOfOrderAck \<and> e \<noteq> errRstStreamOnInvalidStream
        \<longrightarrow> snd (handleLoopError env s (Some e)) = snd (Close env s (Some e) True))
   \<and> (closeChan s0 = 0 \<and> selectedCase env s0 sel = (Returns err, s)
        \<longrightarrow> iteration env s0 sel =
              (case handleLoopError env s err of
                 (Returns u, s') \<Rightarrow> (Returns True, garbageCollectStreams env s')
               | (Faults f, s') \<Rightarrow> (Faults f, s')))"
  by (simp add: handleLoopError_def closeFromLoop_def iteration_def
      split: prod.splits outcome.splits)

theorem handleLoopError_cases_witness:
  "errInvalidStreamID \<noteq> ErrDuplicateOrOutOfOrderAck
   \<and> errInvalidStreamID \<noteq> errRstStreamOnInvalidStream
   \<and> snd (handleLoopError example_env example_session (Some errInvalidStreamID))
       = snd (Close example_env example_session (Some errInvalidStreamID) True)
   \<and> closed (snd (handleLoopError example_env example_session (Some errInvalidStreamID)))
   \<and> \<not> closed (snd (handleLoopError example_env example_session (Some ErrDuplicateOrOutOfOrderAck)))
   \<and> closeChan example_session = 0
   \<and> fst (selectedCase (example_env\<lparr>SentPacket := \<lambda>h p. Some ErrMapAccess\<rparr>)
            example_session case_sendingScheduled) = Returns (Some ErrMapAccess)
   \<and> fst (iteration (example_env\<lparr>SentPacket := \<lambda>h p. Some ErrMapAccess\<rparr>)
            example_session case_sendingScheduled) = Returns True
   \<and> closed (snd (iteration (example_env\<lparr>SentPacket := \<lambda>h p. Some ErrMapAccess\<rparr>)
            example_session case_sendingScheduled))"
  using handleLoopError_cases [where env = example_env and s = example_session
          and e = errInvalidStreamID]
        handleLoopError_cases [where env = "example_env\<lparr>SentPacket := \<lambda>h p. Some ErrMapAccess\<rparr>"
          and ?s0.0 = example_session and sel = case_sendingScheduled
          and err = "Some ErrMapAccess" and e = ErrMapAccess
          and s = "snd (selectedCase (example_env\<lparr>SentPacket := \<lambda>h p. Some ErrMapAccess\<rparr>)
                     example_session case_sendingScheduled)"]
  by (simp add: iteration_def selectedCase_def handleLoopError_def closeFromLoop_def Close_def
      sendPublicReset_def sendConnectionClose_def closeStreamsWithError_def errorCodeOf_def
      garbageCollectStreams_def sendPacket_defs example_defs)

subsection \<open>The frame dispatcher\<close>

text \<open>
  C2, as the code has it: when the unpacker fails with \<^verbatim>\<open>QUIC_DECRYPTION_FAILURE\<close>,
  \<^verbatim>\<open>handlePacket\<close> returns nil; the packet is not given to the receive-ack engine and no
  frame is handled; the stream table, the closed flag and the channels are as before. But
  the session is not as if the packet had not arrived: before unpacking, the last
  received packet number has become the number of this packet, and the connection has
  been told the remote address. For any other error of the unpacker, \<^verbatim>\<open>handlePacket\<close>
  returns that error.
\<close>

theorem handlePacket_unpack_error:
  "(let pn = InferPacketNumber env (PacketNumberLen hdr) (lastRcvdPacketNumber s) (PacketNumber hdr);
        hdr' = hdr\<lparr>PacketNumber := pn\<rparr>;
        h = calls s @ [E_Log Debugf, E_setCurrentRemoteAddr addr];
        res = Unpack env h (Raw hdr) hdr' payload;
        h' = h @ [E_Unpack (Raw hdr) hdr' payload res]
    in (res = Inl (QuicError (QUIC_DECRYPTION_FAILURE env) msg)
          \<longrightarrow> handlePacket env s addr hdr payload =
                (Returns None, s\<lparr>lastRcvdPacketNumber := pn, calls := h' @ [E_Log Infof]\<rparr>))
     \<and> (res = Inl err \<and> (\<forall>m. err \<noteq> QuicError (QUIC_DECRYPTION_FAILURE env) m)
          \<longrightarrow> handlePacket env s addr hdr payload =
                (Returns (Some err), s\<lparr>lastRcvdPacketNumber := pn, calls := h'\<rparr>)))"
  by (auto simp add: handlePacket_def Let_def call_def isDecryptionFailure_def split: error.splits)

theorem handlePacket_unpack_error_witness:
  "handlePacket undecryptable_env example_session 0 example_header []
     = (Returns None,
        example_session\<lparr>lastRcvdPacketNumber := 5,
          calls := [E_Log Debugf, E_setCurrentRemoteAddr 0,
                    E_Unpack [0x0c] example_header [] (Inl (QuicError 12 ''decryption failure'')),
                    E_Log Infof]\<rparr>)
   \<and> handlePacket
        (example_env\<lparr>Unpack := \<lambda>h raw hdr payload. Inl (OtherError ''short packet'')\<rparr>)
        example_session 0 example_header []
     = (Returns (Some (OtherError ''short packet'')),
        example_session\<lparr>lastRcvdPacketNumber := 5,
          calls := [E_Log Debugf, E_setCurrentRemoteAddr 0,
                    E_Unpack [0x0c] example_header [] (Inl (OtherError ''short packet''))]\<rparr>)"
  using handlePacket_unpack_error [of undecryptable_env
          example_header example_session 0 "[]" "''decryption failure''"]
        handlePacket_unpack_error [of
          "example_env\<lparr>Unpack := \<lambda>h raw hdr payload. Inl (OtherError ''short packet'')\<rparr>"
          example_header example_session 0 "[]" _ "OtherError ''short packet''"]
  by (simp add: undecryptable_env_def example_defs example_header_def Let_def)

text \<open>
  C2 as it is stated fails: a packet with the number 5 that cannot be decrypted arrives
  at a session whose last received packet number is 0; \<^verbatim>\<open>handlePacket\<close> returns nil, and
  the last received packet number of the session is 5.
\<close>

theorem handlePacket_decryption_failure_counterexample:
  "Unpack undecryptable_env (calls example_session @ [E_Log Debugf, E_setCurrentRemoteAddr 0])
       (Raw example_header) example_header []
     = Inl (QuicError (QUIC_DECRYPTION_FAILURE undecryptable_env) ''decryption failure'')
   \<and> fst (handlePacket undecryptable_env example_session 0 example_header []) = Returns None
   \<and> lastRcvdPacketNumber example_session = 0
   \<and> lastRcvdPacketNumber (snd (handlePacket undecryptable_env example_session 0 example_header []))
       = 5"
  by (simp add: handlePacket_def Let_def call_def isDecryptionFailure_def undecryptable_env_def
      example_defs example_header_def)

end
